theory Spec2Isabelle
  imports Complex_Main
begin

section \<open>Data model (shared/api.ts)\<close>

text \<open>
  JavaScript numbers are modelled as exact reals; counts and array lengths as naturals;
  the integer card stats as integers. An ISO timestamp string produced by
  \<^verbatim>\<open>new Date().toISOString()\<close> is modelled by the millisecond clock reading it renders
  (\<^verbatim>\<open>new Date(s).getTime()\<close> reads that number back). Field names that several
  interfaces share, or that HOL already uses (\<^verbatim>\<open>id\<close>, \<^verbatim>\<open>card\<close>, \<^verbatim>\<open>power\<close>),
  carry a prefix or a suffix.
\<close>

datatype CardRarity = Common | Rare | Epic | Legendary | Mythic

datatype CardVariant = Standard | Shiny | Holographic | Animated

datatype Universe = Marvel | DC | Other

datatype Alignment = Hero | Villain | AntiHero

record CharacterAttributes =
  alignment :: Alignment
  powers :: "string list"
  team :: "string option"
  firstAppearance :: "string option"

record Character =
  ch_id :: string
  ch_name :: string
  ch_aliases :: "string list"
  ch_universe :: Universe
  ch_quote :: string
  ch_source :: string
  ch_genre :: string
  ch_imageUrl :: string
  ch_characterImageUrl :: string
  ch_pixelatedImageUrl :: "string option"
  ch_attributes :: CharacterAttributes

record CardStats =
  popularity :: int
  difficulty :: int
  power_stat :: int

text \<open>
  The card id is the template string
  \<^verbatim>\<open>`${characterId}-${Date.now()}-${Math.random().toString(36).substr(2, 9)}`\<close>;
  the model keeps its three ingredients.
\<close>

record CharacterCard =
  card_id :: "string \<times> int \<times> real"
  characterId :: string
  characterName :: string
  rarity :: CardRarity
  serialNumber :: nat
  maxSupply :: nat
  unlockedAt :: int
  variant :: "CardVariant option"
  stats :: CardStats
  imageUrl :: string
  characterImageUrl :: string

record Achievement =
  ach_id :: string
  ach_name :: string
  ach_description :: string
  ach_icon :: string
  ach_unlockedAt :: "int option"
  ach_progress :: nat
  ach_maxProgress :: nat

record Performance =
  perf_guessTime :: real
  perf_cluesUsed :: real
  perf_wrongAttempts :: real
  perf_score :: real

record CardReward =
  rw_card :: CharacterCard
  isFirstTime :: bool
  isDuplicate :: bool
  performance :: Performance
  bonusMultiplier :: real
  unlockedAchievements :: "Achievement list"

text \<open>
  A request body as it arrives: every field may be absent (\<^verbatim>\<open>undefined\<close>).
\<close>

record AwardCardRequest =
  req_characterId :: "string option"
  req_guessTime :: "real option"
  req_cluesUsed :: "real option"
  req_wrongAttempts :: "real option"
  req_isWon :: "bool option"

record AwardCardResponse =
  status :: nat
  success :: bool
  reward :: "CardReward option"
  error :: "string option"

record CardCollection =
  cards :: "CharacterCard list"
  totalCards :: nat
  uniqueCharacters :: nat
  rarityCount :: "CardRarity \<Rightarrow> nat"
  completionPercentage :: real

section \<open>The process state and its effects\<close>

text \<open>
  The module-level map \<^verbatim>\<open>cardCollections\<close> is the only mutable program state (the
  module's second map, \<^verbatim>\<open>achievements\<close>, is never read or written). The
  two ambient effects, \<^verbatim>\<open>Math.random()\<close> and the clock, are sequences fixed in
  advance together with the number of values already consumed, so every call returns the
  next value and advances the counter.
\<close>

record world =
  cardCollections :: "string \<rightharpoonup> CharacterCard list"
  random_src :: "nat \<Rightarrow> real"
  random_used :: nat
  clock_src :: "nat \<Rightarrow> int"
  clock_used :: nat

definition Math_random :: "world \<Rightarrow> real \<times> world" where
  "Math_random w = (random_src w (random_used w), w\<lparr>random_used := Suc (random_used w)\<rparr>)"

definition Date_now :: "world \<Rightarrow> int \<times> world" where
  "Date_now w = (clock_src w (clock_used w), w\<lparr>clock_used := Suc (clock_used w)\<rparr>)"

text \<open>
  \<^verbatim>\<open>Math.random()\<close> promises a value in \<open>[0, 1)\<close>; the properties that need the promise
  assume it of the draw they read.
\<close>

section \<open>Performance Scorer (server/routes/rewards.ts)\<close>

definition calculatePerformanceScore :: "real \<Rightarrow> real \<Rightarrow> real \<Rightarrow> bool \<Rightarrow> real" where
  "calculatePerformanceScore guessTime cluesUsed wrongAttempts isWon =
     (if \<not> isWon then 0
      else
        let score0 = 100;
            timePenalty = min 30 guessTime / 30 * 30;
            score1 = score0 - timePenalty;
            score2 = score1 - cluesUsed * 10;
            score3 = score2 - wrongAttempts * 5
        in max 0 (min 100 score3))"

section \<open>Rarity and variant selectors\<close>

definition determineRarity :: "real \<Rightarrow> world \<Rightarrow> CardRarity \<times> world" where
  "determineRarity performanceScore w =
     (if performanceScore \<ge> 95 then
        (case Math_random w of (r, w') \<Rightarrow>
           let roll = r * 100 in
           (if roll < 20 then Mythic
            else if roll < 60 then Legendary
            else Epic, w'))
      else if performanceScore \<ge> 80 then
        (case Math_random w of (r, w') \<Rightarrow>
           let roll = r * 100 in
           (if roll < 5 then Mythic
            else if roll < 30 then Legendary
            else if roll < 70 then Epic
            else Rare, w'))
      else if performanceScore \<ge> 60 then
        (case Math_random w of (r, w') \<Rightarrow>
           let roll = r * 100 in
           (if roll < 40 then Epic
            else if roll < 80 then Rare
            else Common, w'))
      else if performanceScore \<ge> 40 then
        (case Math_random w of (r, w') \<Rightarrow>
           let roll = r * 100 in
           (if roll < 10 then Epic
            else if roll < 50 then Rare
            else Common, w'))
      else
        (case Math_random w of (r, w') \<Rightarrow>
           let roll = r * 100 in
           (if roll < 20 then Rare else Common, w')))"

definition determineVariant :: "CardRarity \<Rightarrow> world \<Rightarrow> CardVariant \<times> world" where
  "determineVariant rar w =
     (case Math_random w of (r, w') \<Rightarrow>
        let roll = r * 100 in
        (if rar = Mythic then
           (if roll < 50 then Animated
            else if roll < 80 then Holographic
            else Shiny)
         else if rar = Legendary then
           (if roll < 20 then Animated
            else if roll < 50 then Holographic
            else if roll < 80 then Shiny
            else Standard)
         else if rar = Epic then
           (if roll < 10 then Holographic
            else if roll < 40 then Shiny
            else Standard)
         else if rar = Rare then
           (if roll < 20 then Shiny else Standard)
         else Standard, w'))"

section \<open>Stat Assigner\<close>

text \<open>
  The catalog \<^verbatim>\<open>CHARACTERS\<close> (server/data/characters.ts) is a parameter of every
  function that reads it. A character's universe has the type
  \<^verbatim>\<open>'Marvel' | 'DC' | 'Other'\<close>; \<open>universe_str\<close> gives the string each value is.
\<close>

fun universe_str :: "Universe \<Rightarrow> string" where
  "universe_str Marvel = ''Marvel''"
| "universe_str DC = ''DC''"
| "universe_str Other = ''Other''"

definition popularUniverses :: "string list" where
  "popularUniverses = [''Marvel Comics'', ''DC Comics'', ''Star Wars'', ''Harry Potter'']"

text \<open>
  What the awaited call to the difficulty oracle can do: \<^verbatim>\<open>fetch\<close> rejects (network
  error), the response is not \<^verbatim>\<open>ok\<close>, the response is \<^verbatim>\<open>ok\<close> but
  \<^verbatim>\<open>response.json()\<close> rejects, or the response is \<^verbatim>\<open>ok\<close> and carries a
  \<^verbatim>\<open>difficulty_score\<close>.
\<close>

datatype fetch_outcome = FetchRejected | HttpNotOk | HttpOkBadJson | HttpOk real

text \<open>\<^verbatim>\<open>Math.round\<close> rounds half up.\<close>

definition Math_round :: "real \<Rightarrow> int" where
  "Math_round x = \<lfloor>x + 1 / 2\<rfloor>"

definition random_difficulty :: "world \<Rightarrow> int \<times> world" where
  "random_difficulty w = (case Math_random w of (r, w') \<Rightarrow> (\<lfloor>r * 100\<rfloor>, w'))"

definition calculateCharacterStats ::
  "Character list \<Rightarrow> fetch_outcome \<Rightarrow> string \<Rightarrow> world \<Rightarrow> CardStats \<times> world" where
  "calculateCharacterStats CHARACTERS outcome cid w =
     (case find (\<lambda>c. ch_id c = cid) CHARACTERS of
        None \<Rightarrow> (\<lparr>popularity = 50, difficulty = 50, power_stat = 50\<rparr>, w)
      | Some character \<Rightarrow>
          let (pop, w1) =
                (if universe_str (ch_universe character) \<in> set popularUniverses
                 then (case Math_random w of (r, w') \<Rightarrow> (\<lfloor>r * 30\<rfloor> + 70, w'))
                 else (case Math_random w of (r, w') \<Rightarrow> (\<lfloor>r * 50\<rfloor> + 30, w')));
              (dif, w2) =
                (case outcome of
                   FetchRejected \<Rightarrow> random_difficulty w1
                 | HttpNotOk \<Rightarrow> (50, w1)
                 | HttpOkBadJson \<Rightarrow> random_difficulty w1
                 | HttpOk difficulty_score \<Rightarrow> (Math_round difficulty_score, w1));
              hasPowers = (length (powers (ch_attributes character)) > 0);
              (pow, w3) =
                (if hasPowers
                 then (case Math_random w2 of (r, w') \<Rightarrow> (\<lfloor>r * 30\<rfloor> + 60, w'))
                 else (case Math_random w2 of (r, w') \<Rightarrow> (\<lfloor>r * 60\<rfloor> + 20, w')))
          in (\<lparr>popularity = pop, difficulty = dif, power_stat = pow\<rparr>, w3))"

section \<open>Collection Store\<close>

definition getCollection :: "string \<Rightarrow> world \<Rightarrow> CharacterCard list \<times> world" where
  "getCollection userId w =
     (case cardCollections w userId of
        None \<Rightarrow> ([], w\<lparr>cardCollections := (cardCollections w)(userId \<mapsto> [])\<rparr>)
      | Some cs \<Rightarrow> (cs, w))"

text \<open>The stored sequence of the one user there is, empty when nothing is stored.\<close>

definition stored :: "world \<Rightarrow> CharacterCard list" where
  "stored w = (case cardCollections w ''default'' of None \<Rightarrow> [] | Some cs \<Rightarrow> cs)"

section \<open>Reward Orchestrator\<close>

definition maxSupply_of :: "CardRarity \<Rightarrow> nat" where
  "maxSupply_of rar =
     (if rar = Mythic then 100
      else if rar = Legendary then 500
      else if rar = Epic then 1000
      else if rar = Rare then 5000
      else 10000)"

definition first_card_unlock :: "int \<Rightarrow> Achievement" where
  "first_card_unlock t =
     \<lparr>ach_id = ''first-card'', ach_name = ''First Card'',
      ach_description = ''Unlock your first character card'',
      ach_icon = [CHR 0xF0, CHR 0x9F, CHR 0x8E, CHR 0xB4],
      ach_unlockedAt = Some t, ach_progress = 1, ach_maxProgress = 1\<rparr>"

definition collector_unlock :: "int \<Rightarrow> Achievement" where
  "collector_unlock t =
     \<lparr>ach_id = ''collector'', ach_name = ''Collector'',
      ach_description = ''Unlock 10 character cards'',
      ach_icon = [CHR 0xF0, CHR 0x9F, CHR 0x93, CHR 0x9A],
      ach_unlockedAt = Some t, ach_progress = 10, ach_maxProgress = 10\<rparr>"

definition legendary_pull_unlock :: "int \<Rightarrow> Achievement" where
  "legendary_pull_unlock t =
     \<lparr>ach_id = ''legendary-pull'', ach_name = ''Legendary Pull'',
      ach_description = ''Unlock your first legendary card'',
      ach_icon = [CHR 0xF0, CHR 0x9F, CHR 0x8C, CHR 0x9F],
      ach_unlockedAt = Some t, ach_progress = 1, ach_maxProgress = 1\<rparr>"

definition perfect_game_unlock :: "int \<Rightarrow> Achievement" where
  "perfect_game_unlock t =
     \<lparr>ach_id = ''perfect-game'', ach_name = ''Perfect Game'',
      ach_description = ''Complete a game with a perfect score'',
      ach_icon = [CHR 0xF0, CHR 0x9F, CHR 0x92, CHR 0xAF],
      ach_unlockedAt = Some t, ach_progress = 1, ach_maxProgress = 1\<rparr>"

text \<open>
  One \<^verbatim>\<open>if (cond) unlockedAchievements.push({..., unlockedAt: new Date().toISOString(), ...})\<close>:
  the clock is read only when the condition holds.
\<close>

definition push_if ::
  "bool \<Rightarrow> (int \<Rightarrow> Achievement) \<Rightarrow> Achievement list \<times> world \<Rightarrow> Achievement list \<times> world" where
  "push_if cond mk s =
     (case s of (acc, w) \<Rightarrow>
        if cond then (case Date_now w of (t, w') \<Rightarrow> (acc @ [mk t], w')) else (acc, w))"

text \<open>
  The body of \<^verbatim>\<open>awardCard\<close> after its two early returns: the request fields are
  present and \<open>character\<close> is the catalog entry found.
\<close>

definition mintCard ::
  "Character list \<Rightarrow> fetch_outcome \<Rightarrow> Character \<Rightarrow> string \<Rightarrow> real \<Rightarrow> real \<Rightarrow> real \<Rightarrow> bool
     \<Rightarrow> world \<Rightarrow> AwardCardResponse \<times> world" where
  "mintCard CHARACTERS outcome character cid guessTime cluesUsed wrongAttempts isWon w =
     (let performanceScore = calculatePerformanceScore guessTime cluesUsed wrongAttempts isWon;
          (rar, w1) = determineRarity performanceScore w;
          (var, w2) = determineVariant rar w1;
          (collection, w3) = getCollection ''default'' w2;
          existingCards = filter (\<lambda>c. characterId c = cid) collection;
          isFirst = (length existingCards = 0);
          serial = length existingCards + 1;
          supply = maxSupply_of rar;
          (characterStats, w4) = calculateCharacterStats CHARACTERS outcome cid w3;
          (now, w5) = Date_now w4;
          (suffix, w6) = Math_random w5;
          (stamp, w7) = Date_now w6;
          newCard = \<lparr>card_id = (cid, now, suffix),
                     characterId = cid,
                     characterName = ch_name character,
                     rarity = rar,
                     serialNumber = serial,
                     maxSupply = supply,
                     unlockedAt = stamp,
                     variant = Some var,
                     stats = characterStats,
                     imageUrl = ch_imageUrl character,
                     characterImageUrl =
                       (if ch_characterImageUrl character \<noteq> [] then ch_characterImageUrl character
                        else ch_imageUrl character)\<rparr>;
          collection' = collection @ [newCard];
          w8 = w7\<lparr>cardCollections := (cardCollections w7)(''default'' \<mapsto> collection')\<rparr>;
          bonus = performanceScore / 100;
          (unlocked, w9) =
            push_if (performanceScore = 100) perfect_game_unlock
              (push_if (rar = Legendary
                        \<and> length (filter (\<lambda>c. rarity c = Legendary) collection') = 1)
                 legendary_pull_unlock
                 (push_if (length collection' = 10) collector_unlock
                    (push_if (length collection' = 1) first_card_unlock ([], w8))));
          rew = \<lparr>rw_card = newCard,
                 isFirstTime = isFirst,
                 isDuplicate = (\<not> isFirst),
                 performance = \<lparr>perf_guessTime = guessTime, perf_cluesUsed = cluesUsed,
                                perf_wrongAttempts = wrongAttempts, perf_score = performanceScore\<rparr>,
                 bonusMultiplier = bonus,
                 unlockedAchievements = unlocked\<rparr>
      in (\<lparr>status = 200, success = True, reward = Some rew, error = None\<rparr>, w9))"

definition missing_fields :: AwardCardResponse where
  "missing_fields =
     \<lparr>status = 400, success = False, reward = None, error = Some ''Missing required fields''\<rparr>"

definition character_not_found :: AwardCardResponse where
  "character_not_found =
     \<lparr>status = 404, success = False, reward = None, error = Some ''Character not found''\<rparr>"

text \<open>
  \<^verbatim>\<open>awardCard\<close>. The guard is
  \<^verbatim>\<open>!characterId || guessTime === undefined || cluesUsed === undefined || wrongAttempts === undefined\<close>:
  an absent or empty \<^verbatim>\<open>characterId\<close> is falsy; \<^verbatim>\<open>isWon\<close> is not tested, and an absent
  \<^verbatim>\<open>isWon\<close> is falsy in \<^verbatim>\<open>if (!isWon)\<close>. With a body of this shape no statement of
  the handler throws (the failures of the oracle call are caught inside the Stat Assigner), so the
  handler's own catch-all has no branch here.
\<close>

definition awardCard ::
  "Character list \<Rightarrow> fetch_outcome \<Rightarrow> AwardCardRequest \<Rightarrow> world \<Rightarrow> AwardCardResponse \<times> world" where
  "awardCard CHARACTERS outcome req w =
     (case req_characterId req of
        None \<Rightarrow> (missing_fields, w)
      | Some cid \<Rightarrow>
          if cid = [] then (missing_fields, w)
          else
            (case req_guessTime req of
               None \<Rightarrow> (missing_fields, w)
             | Some guessTime \<Rightarrow>
                 (case req_cluesUsed req of
                    None \<Rightarrow> (missing_fields, w)
                  | Some cluesUsed \<Rightarrow>
                      (case req_wrongAttempts req of
                         None \<Rightarrow> (missing_fields, w)
                       | Some wrongAttempts \<Rightarrow>
                           (case find (\<lambda>c. ch_id c = cid) CHARACTERS of
                              None \<Rightarrow> (character_not_found, w)
                            | Some character \<Rightarrow>
                                mintCard CHARACTERS outcome character cid guessTime cluesUsed
                                  wrongAttempts (req_isWon req = Some True) w)))))"

section \<open>Collection and achievement endpoints\<close>

text \<open>
  \<^verbatim>\<open>collection.reduce\<close> counts cards per rarity into an object that starts empty; the
  \<^verbatim>\<open>forEach\<close> after it fills the rarities still absent with 0.
\<close>

definition count_rarities :: "CharacterCard list \<Rightarrow> (CardRarity \<rightharpoonup> nat)" where
  "count_rarities collection =
     fold (\<lambda>c acc. acc(rarity c \<mapsto> (case acc (rarity c) of None \<Rightarrow> 0 | Some n \<Rightarrow> n) + 1))
       collection Map.empty"

text \<open>
  \<^verbatim>\<open>Array.prototype.sort\<close> sorts the array in place and is stable; the comparator
  \<^verbatim>\<open>new Date(b.unlockedAt).getTime() - new Date(a.unlockedAt).getTime()\<close> orders newest
  first. The array sorted is the one the map holds, so the sorted order is stored.
\<close>

definition sort_newest_first :: "CharacterCard list \<Rightarrow> CharacterCard list" where
  "sort_newest_first collection = sort_key (\<lambda>c. - unlockedAt c) collection"

text \<open>
  For an empty catalog the completion percentage divides by zero: JavaScript yields
  \<^verbatim>\<open>NaN\<close> where the division here gives 0. No property below reads that field.
\<close>

definition getCardCollection :: "Character list \<Rightarrow> world \<Rightarrow> CardCollection \<times> world" where
  "getCardCollection CHARACTERS w =
     (let (collection, w1) = getCollection ''default'' w;
          unique = length (remdups (map characterId collection));
          counted = count_rarities collection;
          filled = (\<lambda>r. case counted r of None \<Rightarrow> 0 | Some n \<Rightarrow> n);
          completion = (real unique / real (length CHARACTERS)) * 100;
          sorted_cards = sort_newest_first collection;
          w2 = w1\<lparr>cardCollections := (cardCollections w1)(''default'' \<mapsto> sorted_cards)\<rparr>
      in (\<lparr>cards = sorted_cards,
           totalCards = length sorted_cards,
           uniqueCharacters = unique,
           rarityCount = filled,
           completionPercentage = completion\<rparr>, w2))"

definition getAchievements :: "world \<Rightarrow> Achievement list \<times> world" where
  "getAchievements w =
     (let (collection, w1) = getCollection ''default'' w
      in ([\<lparr>ach_id = ''first-card'', ach_name = ''First Card'',
             ach_description = ''Unlock your first character card'',
             ach_icon = [CHR 0xF0, CHR 0x9F, CHR 0x8E, CHR 0xB4],
             ach_unlockedAt =
               (if length collection \<ge> 1 then Some (unlockedAt (collection ! 0)) else None),
             ach_progress = min (length collection) 1, ach_maxProgress = 1\<rparr>,
           \<lparr>ach_id = ''collector'', ach_name = ''Collector'',
             ach_description = ''Unlock 10 character cards'',
             ach_icon = [CHR 0xF0, CHR 0x9F, CHR 0x93, CHR 0x9A],
             ach_unlockedAt =
               (if length collection \<ge> 10 then Some (unlockedAt (collection ! 9)) else None),
             ach_progress = min (length collection) 10, ach_maxProgress = 10\<rparr>,
           \<lparr>ach_id = ''master-collector'', ach_name = ''Master Collector'',
             ach_description = ''Unlock 50 character cards'',
             ach_icon = [CHR 0xF0, CHR 0x9F, CHR 0x8F, CHR 0x86],
             ach_unlockedAt =
               (if length collection \<ge> 50 then Some (unlockedAt (collection ! 49)) else None),
             ach_progress = min (length collection) 50, ach_maxProgress = 50\<rparr>,
           \<lparr>ach_id = ''legendary-pull'', ach_name = ''Legendary Pull'',
             ach_description = ''Unlock your first legendary card'',
             ach_icon = [CHR 0xF0, CHR 0x9F, CHR 0x8C, CHR 0x9F],
             ach_unlockedAt = map_option unlockedAt (find (\<lambda>c. rarity c = Legendary) collection),
             ach_progress = min (length (filter (\<lambda>c. rarity c = Legendary) collection)) 1,
             ach_maxProgress = 1\<rparr>,
           \<lparr>ach_id = ''mythic-hunter'', ach_name = ''Mythic Hunter'',
             ach_description = ''Unlock a mythic card'',
             ach_icon = [CHR 0xE2, CHR 0xAD, CHR 0x90],
             ach_unlockedAt = map_option unlockedAt (find (\<lambda>c. rarity c = Mythic) collection),
             ach_progress = min (length (filter (\<lambda>c. rarity c = Mythic) collection)) 1,
             ach_maxProgress = 1\<rparr>], w1))"

section \<open>Sequences of requests\<close>

datatype api_call =
    AwardCard fetch_outcome AwardCardRequest
  | GetCardCollection
  | GetAchievements

text \<open>The process starts with an empty map.\<close>

definition initial_world :: "(nat \<Rightarrow> real) \<Rightarrow> (nat \<Rightarrow> int) \<Rightarrow> world" where
  "initial_world rnd clk =
     \<lparr>cardCollections = Map.empty, random_src = rnd, random_used = 0,
      clock_src = clk, clock_used = 0\<rparr>"

fun serve :: "Character list \<Rightarrow> api_call \<Rightarrow> world \<Rightarrow> world" where
  "serve CHARACTERS (AwardCard outcome req) w = snd (awardCard CHARACTERS outcome req w)"
| "serve CHARACTERS GetCardCollection w = snd (getCardCollection CHARACTERS w)"
| "serve CHARACTERS GetAchievements w = snd (getAchievements w)"

fun serve_all :: "Character list \<Rightarrow> api_call list \<Rightarrow> world \<Rightarrow> world" where
  "serve_all CHARACTERS [] w = w"
| "serve_all CHARACTERS (c # cs) w = serve_all CHARACTERS cs (serve CHARACTERS c w)"

text \<open>
  The cards a run mints, in the order of the award responses that carry them.
\<close>

fun awarded_by :: "Character list \<Rightarrow> api_call \<Rightarrow> world \<Rightarrow> CharacterCard list" where
  "awarded_by CHARACTERS (AwardCard outcome req) w =
     (case reward (fst (awardCard CHARACTERS outcome req w)) of
        None \<Rightarrow> []
      | Some rw \<Rightarrow> [rw_card rw])"
| "awarded_by CHARACTERS GetCardCollection w = []"
| "awarded_by CHARACTERS GetAchievements w = []"

fun awarded :: "Character list \<Rightarrow> api_call list \<Rightarrow> world \<Rightarrow> CharacterCard list" where
  "awarded CHARACTERS [] w = []"
| "awarded CHARACTERS (c # cs) w =
     awarded_by CHARACTERS c w @ awarded CHARACTERS cs (serve CHARACTERS c w)"

section \<open>The rarity table as the specification words it\<close>

text \<open>
  The specification gives, per score bucket, a weight for each tier in the fixed order
  mythic, legendary, epic, rare, common, and selects the first tier whose cumulative
  threshold the roll falls under, with common as the fall-through.
\<close>

definition rarity_weights :: "real \<Rightarrow> (CardRarity \<times> real) list" where
  "rarity_weights score =
     (if score \<ge> 95 then
        [(Mythic, 20), (Legendary, 40), (Epic, 40), (Rare, 0), (Common, 0)]
      else if 80 \<le> score \<and> score < 95 then
        [(Mythic, 5), (Legendary, 25), (Epic, 40), (Rare, 30), (Common, 0)]
      else if 60 \<le> score \<and> score < 80 then
        [(Mythic, 0), (Legendary, 0), (Epic, 40), (Rare, 40), (Common, 20)]
      else if 40 \<le> score \<and> score < 60 then
        [(Mythic, 0), (Legendary, 0), (Epic, 10), (Rare, 40), (Common, 50)]
      else
        [(Mythic, 0), (Legendary, 0), (Epic, 0), (Rare, 20), (Common, 80)])"

fun first_under :: "real \<Rightarrow> real \<Rightarrow> (CardRarity \<times> real) list \<Rightarrow> CardRarity" where
  "first_under roll acc [] = Common"
| "first_under roll acc ((tier, weight) # rest) =
     (if roll < acc + weight then tier else first_under roll (acc + weight) rest)"

section \<open>Concrete scenarios\<close>

text \<open>
  Modelled from the spec: the catalog file server/data/characters.ts is not among the
  sources, so the concrete scenarios run on a two-entry sample catalog holding the two
  character ids the specification's scenarios name.
\<close>

definition demo_catalog :: "Character list" where
  "demo_catalog =
     [\<lparr>ch_id = ''spider-man'', ch_name = ''Spider-Man'', ch_aliases = [''Peter Parker''],
       ch_universe = Marvel, ch_quote = [], ch_source = [], ch_genre = ''Superhero'',
       ch_imageUrl = ''/clue.png'', ch_characterImageUrl = [],
       ch_pixelatedImageUrl = None,
       ch_attributes = \<lparr>alignment = Hero, powers = [''wall-crawling''], team = None,
                         firstAppearance = None\<rparr>\<rparr>,
      \<lparr>ch_id = ''iron-man'', ch_name = ''Iron Man'', ch_aliases = [],
       ch_universe = Marvel, ch_quote = [], ch_source = [], ch_genre = ''Superhero'',
       ch_imageUrl = ''/clue2.png'', ch_characterImageUrl = ''/iron.png'',
       ch_pixelatedImageUrl = None,
       ch_attributes = \<lparr>alignment = Hero, powers = [], team = Some ''Avengers'',
                         firstAppearance = None\<rparr>\<rparr>]"

text \<open>A random source that always returns the same value, and a clock that ticks by one.\<close>

definition constant_random :: "real \<Rightarrow> nat \<Rightarrow> real" where
  "constant_random x n = x"

definition ticking_clock :: "int \<Rightarrow> nat \<Rightarrow> int" where
  "ticking_clock t0 n = t0 + int n"

definition play :: "string \<Rightarrow> real \<Rightarrow> real \<Rightarrow> real \<Rightarrow> bool option \<Rightarrow> AwardCardRequest" where
  "play cid g c wa won =
     \<lparr>req_characterId = Some cid, req_guessTime = Some g, req_cluesUsed = Some c,
      req_wrongAttempts = Some wa, req_isWon = won\<rparr>"

text \<open>The card a response carries, if any.\<close>

definition minted :: "AwardCardResponse \<Rightarrow> CharacterCard option" where
  "minted resp = map_option rw_card (reward resp)"

text \<open>The identifiers of the achievements a response reports as newly unlocked.\<close>

definition unlocked_ids :: "AwardCardResponse \<Rightarrow> string list" where
  "unlocked_ids resp =
     (case reward resp of None \<Rightarrow> [] | Some rw \<Rightarrow> map ach_id (unlockedAchievements rw))"

text \<open>The worlds and requests of the concrete scenarios.\<close>

definition world0 :: world where
  "world0 = initial_world (constant_random (1 / 10)) (ticking_clock 1000)"

definition world99 :: world where
  "world99 = initial_world (constant_random (99 / 100)) (ticking_clock 1000)"

definition perfect_award :: "AwardCardResponse \<times> world" where
  "perfect_award = awardCard demo_catalog HttpNotOk (play ''spider-man'' 0 0 0 (Some True)) world0"

definition lost_award :: "AwardCardResponse \<times> world" where
  "lost_award = awardCard demo_catalog HttpNotOk (play ''spider-man'' 5 0 0 (Some False)) world0"

definition unflagged_award :: "AwardCardResponse \<times> world" where
  "unflagged_award = awardCard demo_catalog HttpNotOk (play ''spider-man'' 5 0 0 None) world0"

definition not_ok_award :: "AwardCardResponse \<times> world" where
  "not_ok_award = awardCard demo_catalog HttpNotOk (play ''spider-man'' 5 0 0 (Some True)) world99"

definition rejected_award :: "AwardCardResponse \<times> world" where
  "rejected_award = awardCard demo_catalog FetchRejected (play ''spider-man'' 5 0 0 (Some True)) world99"

definition two_awards_then_collection :: world where
  "two_awards_then_collection =
     serve_all demo_catalog
       [AwardCard HttpNotOk (play ''spider-man'' 5 0 0 (Some True)),
        AwardCard HttpNotOk (play ''iron-man'' 30 2 3 (Some True)),
        GetCardCollection] world0"

definition three_awards :: world where
  "three_awards =
     serve_all demo_catalog
       [AwardCard HttpNotOk (play ''spider-man'' 5 0 0 (Some True)),
        AwardCard HttpNotOk (play ''iron-man'' 30 2 3 (Some True)),
        AwardCard FetchRejected (play ''spider-man'' 12 1 0 (Some True))] world0"

definition two_awards :: world where
  "two_awards =
     serve_all demo_catalog
       [AwardCard HttpNotOk (play ''spider-man'' 5 0 0 (Some True)),
        AwardCard HttpNotOk (play ''iron-man'' 30 2 3 (Some True))] world0"

section \<open>Invariant of the stored sequence\<close>

text \<open>
  Per character the serial numbers stored are 1, 2, 3, ... in stored order, and every
  stored card carries the supply ceiling of its rarity.
\<close>

definition serials_in_order :: "CharacterCard list \<Rightarrow> bool" where
  "serials_in_order cs =
     ((\<forall>cid. map serialNumber (filter (\<lambda>x. characterId x = cid) cs) =
              [1..<Suc (length (filter (\<lambda>x. characterId x = cid) cs))])
      \<and> (\<forall>x\<in>set cs. maxSupply x = maxSupply_of (rarity x)))"

section \<open>Properties\<close>

subsection \<open>How each operation changes the world\<close>

lemmas scenario_defs =
  awardCard_def mintCard_def calculatePerformanceScore_def determineRarity_def
  determineVariant_def getCollection_def calculateCharacterStats_def Math_random_def
  Date_now_def random_difficulty_def push_if_def maxSupply_of_def initial_world_def
  constant_random_def ticking_clock_def demo_catalog_def play_def popularUniverses_def
  Let_def stored_def first_card_unlock_def collector_unlock_def legendary_pull_unlock_def
  perfect_game_unlock_def Math_round_def minted_def unlocked_ids_def

lemmas scenario_worlds = world0_def world99_def perfect_award_def lost_award_def two_awards_def
  unflagged_award_def not_ok_award_def rejected_award_def two_awards_then_collection_def
  three_awards_def

lemmas endpoint_defs = getCardCollection_def getAchievements_def sort_newest_first_def
  count_rarities_def

lemma determineRarity_world:
  "snd (determineRarity score w) = w\<lparr>random_used := Suc (random_used w)\<rparr>"
  by (simp add: determineRarity_def Math_random_def Let_def)

lemma determineVariant_world:
  "snd (determineVariant rar w) = w\<lparr>random_used := Suc (random_used w)\<rparr>"
  by (simp add: determineVariant_def Math_random_def Let_def)

lemma getCollection_fst: "fst (getCollection ''default'' w) = stored w"
  by (simp add: getCollection_def stored_def split: option.splits)

lemma getCollection_stored: "stored (snd (getCollection ''default'' w)) = stored w"
  by (simp add: getCollection_def stored_def split: option.splits)

lemma getCollection_frame:
  "random_src (snd (getCollection u w)) = random_src w"
  "random_used (snd (getCollection u w)) = random_used w"
  "clock_src (snd (getCollection u w)) = clock_src w"
  "clock_used (snd (getCollection u w)) = clock_used w"
  by (simp_all add: getCollection_def split: option.splits)

lemma calculateCharacterStats_frame:
  "cardCollections (snd (calculateCharacterStats CHARACTERS outcome cid w)) = cardCollections w"
  "random_src (snd (calculateCharacterStats CHARACTERS outcome cid w)) = random_src w"
  by (simp_all add: calculateCharacterStats_def Math_random_def random_difficulty_def Let_def
        split: option.splits fetch_outcome.splits)

lemma calculateCharacterStats_random_used:
  "random_used w \<le> random_used (snd (calculateCharacterStats CHARACTERS outcome cid w))"
  by (simp add: calculateCharacterStats_def Math_random_def random_difficulty_def Let_def
        split: option.splits fetch_outcome.splits)

lemma calculateCharacterStats_difficulty:
  assumes "find (\<lambda>x. ch_id x = cid) CHARACTERS = Some ch"
  shows "difficulty (fst (calculateCharacterStats CHARACTERS outcome cid w)) =
           (case outcome of
              FetchRejected \<Rightarrow> \<lfloor>random_src w (Suc (random_used w)) * 100\<rfloor>
            | HttpNotOk \<Rightarrow> 50
            | HttpOkBadJson \<Rightarrow> \<lfloor>random_src w (Suc (random_used w)) * 100\<rfloor>
            | HttpOk x \<Rightarrow> Math_round x)"
    and "random_used (snd (calculateCharacterStats CHARACTERS outcome cid w)) =
           random_used w +
           (case outcome of FetchRejected \<Rightarrow> 3 | HttpNotOk \<Rightarrow> 2 | HttpOkBadJson \<Rightarrow> 3 | HttpOk x \<Rightarrow> 2)"
  using assms
  by (simp_all add: calculateCharacterStats_def Math_random_def random_difficulty_def Let_def
        split_beta split: fetch_outcome.splits)

lemma push_if_fst:
  "fst (push_if cond mk s) =
     fst s @ (if cond then [mk (clock_src (snd s) (clock_used (snd s)))] else [])"
  by (simp add: push_if_def Date_now_def split: prod.splits)

lemma push_if_frame:
  "cardCollections (snd (push_if cond mk s)) = cardCollections (snd s)"
  "random_src (snd (push_if cond mk s)) = random_src (snd s)"
  "random_used (snd (push_if cond mk s)) = random_used (snd s)"
  "clock_src (snd (push_if cond mk s)) = clock_src (snd s)"
  by (simp_all add: push_if_def Date_now_def split: prod.splits)

lemma unlock_ids:
  "ach_id (first_card_unlock t) = ''first-card''"
  "ach_id (collector_unlock t) = ''collector''"
  "ach_id (legendary_pull_unlock t) = ''legendary-pull''"
  "ach_id (perfect_game_unlock t) = ''perfect-game''"
  by (simp_all add: first_card_unlock_def collector_unlock_def legendary_pull_unlock_def
        perfect_game_unlock_def)

text \<open>The identifiers \<open>mintCard\<close> reports, from the stored sequence before the mint.\<close>

lemma mintCard_reward:
  "\<exists>rw. reward (fst (mintCard CHARACTERS outcome ch cid g c wa won w)) = Some rw
     \<and> status (fst (mintCard CHARACTERS outcome ch cid g c wa won w)) = 200
     \<and> success (fst (mintCard CHARACTERS outcome ch cid g c wa won w))
     \<and> stored (snd (mintCard CHARACTERS outcome ch cid g c wa won w)) = stored w @ [rw_card rw]
     \<and> characterId (rw_card rw) = cid
     \<and> serialNumber (rw_card rw) = Suc (length (filter (\<lambda>x. characterId x = cid) (stored w)))
     \<and> maxSupply (rw_card rw) = maxSupply_of (rarity (rw_card rw))
     \<and> rarity (rw_card rw) = fst (determineRarity (calculatePerformanceScore g c wa won) w)
     \<and> variant (rw_card rw) =
         Some (fst (determineVariant (rarity (rw_card rw)) (w\<lparr>random_used := Suc (random_used w)\<rparr>)))
     \<and> stats (rw_card rw) =
         fst (calculateCharacterStats CHARACTERS outcome cid
               (snd (getCollection ''default'' (w\<lparr>random_used := Suc (Suc (random_used w))\<rparr>))))
     \<and> perf_score (performance rw) = calculatePerformanceScore g c wa won
     \<and> map ach_id (unlockedAchievements rw) =
         (if length (stored w) = 0 then [''first-card''] else [])
         @ (if length (stored w) = 9 then [''collector''] else [])
         @ (if rarity (rw_card rw) = Legendary \<and> filter (\<lambda>x. rarity x = Legendary) (stored w) = []
            then [''legendary-pull''] else [])
         @ (if calculatePerformanceScore g c wa won = 100 then [''perfect-game''] else [])"
  by (simp add: mintCard_def Let_def split_beta determineRarity_world determineVariant_world
        getCollection_fst getCollection_stored push_if_fst push_if_frame unlock_ids
        calculateCharacterStats_frame stored_def Date_now_def Math_random_def)

lemma mintCard_random_used:
  "random_used w + 2 \<le> random_used (snd (mintCard CHARACTERS outcome ch cid g c wa won w))"
proof -
  let ?w3 = "snd (getCollection ''default''
                (snd (determineVariant
                       (fst (determineRarity (calculatePerformanceScore g c wa won) w))
                       (snd (determineRarity (calculatePerformanceScore g c wa won) w)))))"
  have a: "random_used ?w3 = random_used w + 2"
    by (simp add: getCollection_frame determineVariant_world determineRarity_world)
  have b: "random_used (snd (mintCard CHARACTERS outcome ch cid g c wa won w)) =
           Suc (random_used (snd (calculateCharacterStats CHARACTERS outcome cid ?w3)))"
    by (simp add: mintCard_def Let_def split_beta push_if_frame Date_now_def Math_random_def)
  show ?thesis
    using calculateCharacterStats_random_used [of ?w3 CHARACTERS outcome cid] a b by simp
qed

lemma mintCard_draws:
  "random_used (snd (mintCard CHARACTERS outcome ch cid g c wa won w)) =
     Suc (random_used (snd (calculateCharacterStats CHARACTERS outcome cid
            (snd (getCollection ''default'' (w\<lparr>random_used := Suc (Suc (random_used w))\<rparr>))))))"
  by (simp add: mintCard_def Let_def split_beta push_if_frame Date_now_def Math_random_def
        determineVariant_world determineRarity_world)

lemma mintCard_appends:
  "\<exists>nc. stored (snd (mintCard CHARACTERS outcome ch cid g c wa won w)) = stored w @ [nc]
      \<and> characterId nc = cid
      \<and> serialNumber nc = Suc (length (filter (\<lambda>x. characterId x = cid) (stored w)))
      \<and> maxSupply nc = maxSupply_of (rarity nc)"
  using mintCard_reward [of CHARACTERS outcome ch cid g c wa won w]
  by fast

lemma awardCard_cases:
  "awardCard CHARACTERS outcome req w = (missing_fields, w)
   \<or> awardCard CHARACTERS outcome req w = (character_not_found, w)
   \<or> (\<exists>ch cid g c wa.
         req_characterId req = Some cid \<and> cid \<noteq> [] \<and> req_guessTime req = Some g
         \<and> req_cluesUsed req = Some c \<and> req_wrongAttempts req = Some wa
         \<and> find (\<lambda>x. ch_id x = cid) CHARACTERS = Some ch
         \<and> awardCard CHARACTERS outcome req w =
             mintCard CHARACTERS outcome ch cid g c wa (req_isWon req = Some True) w)"
  by (simp add: awardCard_def split: option.splits)

lemma rejected_no_reward:
  "reward missing_fields = None" "reward character_not_found = None"
  by (simp_all add: missing_fields_def character_not_found_def)

lemma awardCard_minted:
  assumes "awardCard CHARACTERS outcome req w = (resp, w')" and "reward resp = Some rw"
  obtains ch cid g c wa where
    "req_characterId req = Some cid" "cid \<noteq> []" "req_guessTime req = Some g"
    "req_cluesUsed req = Some c" "req_wrongAttempts req = Some wa"
    "find (\<lambda>x. ch_id x = cid) CHARACTERS = Some ch"
    "mintCard CHARACTERS outcome ch cid g c wa (req_isWon req = Some True) w = (resp, w')"
  using awardCard_cases [of CHARACTERS outcome req w] assms
  by (auto simp: rejected_no_reward)

lemma missing_checked_field_rejected:
  assumes "req_characterId req = None \<or> req_characterId req = Some []
           \<or> req_guessTime req = None \<or> req_cluesUsed req = None \<or> req_wrongAttempts req = None"
  shows "awardCard CHARACTERS outcome req w = (missing_fields, w)"
  using assms by (auto simp: awardCard_def split: option.splits)

lemma awardCard_serial:
  "case reward (fst (awardCard CHARACTERS outcome req w)) of
     None \<Rightarrow> True
   | Some rw \<Rightarrow>
       serialNumber (rw_card rw) =
         Suc (length (filter (\<lambda>x. characterId x = characterId (rw_card rw)) (stored w)))
       \<and> maxSupply (rw_card rw) = maxSupply_of (rarity (rw_card rw))"
proof -
  consider (bad) "awardCard CHARACTERS outcome req w = (missing_fields, w)"
    | (unknown) "awardCard CHARACTERS outcome req w = (character_not_found, w)"
    | (mint) ch cid g c wa where
        "awardCard CHARACTERS outcome req w =
           mintCard CHARACTERS outcome ch cid g c wa (req_isWon req = Some True) w"
    using awardCard_cases [of CHARACTERS outcome req w] by blast
  then show ?thesis
  proof cases
    case bad then show ?thesis by (simp add: rejected_no_reward)
  next
    case unknown then show ?thesis by (simp add: rejected_no_reward)
  next
    case mint
    show ?thesis
      using mintCard_reward [of CHARACTERS outcome ch cid g c wa "req_isWon req = Some True" w]
      unfolding mint by auto
  qed
qed

lemma stored_initial: "stored (initial_world rnd clk) = []"
  by (simp add: stored_def initial_world_def)

lemma serve_award_stored:
  "stored (serve CHARACTERS (AwardCard outcome req) w) = stored w
   \<or> (\<exists>nc. stored (serve CHARACTERS (AwardCard outcome req) w) = stored w @ [nc]
         \<and> serialNumber nc = Suc (length (filter (\<lambda>x. characterId x = characterId nc) (stored w)))
         \<and> maxSupply nc = maxSupply_of (rarity nc))"
proof -
  consider (bad) "awardCard CHARACTERS outcome req w = (missing_fields, w)"
    | (unknown) "awardCard CHARACTERS outcome req w = (character_not_found, w)"
    | (mint) ch cid g c wa where
        "awardCard CHARACTERS outcome req w =
           mintCard CHARACTERS outcome ch cid g c wa (req_isWon req = Some True) w"
    using awardCard_cases [of CHARACTERS outcome req w] by blast
  then show ?thesis
  proof cases
    case bad then show ?thesis by simp
  next
    case unknown then show ?thesis by simp
  next
    case mint
    show ?thesis
      using mintCard_appends [of CHARACTERS outcome ch cid g c wa "req_isWon req = Some True" w]
      unfolding serve.simps mint by auto
  qed
qed

lemma serve_achievements_stored: "stored (serve CHARACTERS GetAchievements w) = stored w"
  by (simp add: getAchievements_def split_beta getCollection_stored)

lemma getCardCollection_stored:
  "stored (snd (getCardCollection CHARACTERS w)) = sort_newest_first (stored w)"
  by (simp add: getCardCollection_def Let_def split_beta getCollection_def stored_def
        split: option.splits)

lemma read_endpoints_keep_count:
  "length (stored (snd (getCardCollection CHARACTERS w))) = length (stored w)"
  "length (stored (snd (getAchievements w))) = length (stored w)"
  using serve_achievements_stored [of CHARACTERS w]
  by (simp_all add: getCardCollection_stored sort_newest_first_def)

lemma serials_in_order_append:
  assumes "serials_in_order cs"
    and "serialNumber nc = Suc (length (filter (\<lambda>x. characterId x = characterId nc) cs))"
    and "maxSupply nc = maxSupply_of (rarity nc)"
  shows "serials_in_order (cs @ [nc])"
  using assms by (auto simp: serials_in_order_def)

lemma serve_keeps_serials:
  assumes "call \<noteq> GetCardCollection" and "serials_in_order (stored w)"
  shows "serials_in_order (stored (serve CHARACTERS call w))"
proof (cases call)
  case (AwardCard outcome req)
  show ?thesis
    using serve_award_stored [of CHARACTERS outcome req w] assms(2)
    unfolding AwardCard by (auto intro: serials_in_order_append)
next
  case GetCardCollection
  then show ?thesis using assms(1) by simp
next
  case GetAchievements
  then show ?thesis using assms(2) by (simp only: serve_achievements_stored)
qed

lemma serve_all_keeps_serials:
  "GetCardCollection \<notin> set calls \<Longrightarrow> serials_in_order (stored w)
   \<Longrightarrow> serials_in_order (stored (serve_all CHARACTERS calls w))"
proof (induction calls arbitrary: w)
  case Nil
  then show ?case by simp
next
  case (Cons call calls)
  have "serials_in_order (stored (serve CHARACTERS call w))"
    using Cons.prems by (intro serve_keeps_serials) auto
  then show ?case using Cons by simp
qed

lemma awardCard_stored:
  "case reward (fst (awardCard CHARACTERS outcome req w)) of
     None \<Rightarrow> snd (awardCard CHARACTERS outcome req w) = w
   | Some rw \<Rightarrow>
       stored (snd (awardCard CHARACTERS outcome req w)) = stored w @ [rw_card rw]
       \<and> req_characterId req = Some (characterId (rw_card rw))"
proof -
  consider (bad) "awardCard CHARACTERS outcome req w = (missing_fields, w)"
    | (unknown) "awardCard CHARACTERS outcome req w = (character_not_found, w)"
    | (mint) ch cid g c wa where "req_characterId req = Some cid"
        "awardCard CHARACTERS outcome req w =
           mintCard CHARACTERS outcome ch cid g c wa (req_isWon req = Some True) w"
    using awardCard_cases [of CHARACTERS outcome req w] by blast
  then show ?thesis
  proof cases
    case bad then show ?thesis by (simp add: rejected_no_reward)
  next
    case unknown then show ?thesis by (simp add: rejected_no_reward)
  next
    case mint
    show ?thesis
      using mintCard_reward [of CHARACTERS outcome ch cid g c wa "req_isWon req = Some True" w]
      unfolding mint by auto
  qed
qed

lemma serve_stored_awarded:
  assumes "call \<noteq> GetCardCollection"
  shows "stored (serve CHARACTERS call w) = stored w @ awarded_by CHARACTERS call w"
proof (cases call)
  case (AwardCard outcome req)
  show ?thesis
    using awardCard_stored [where CHARACTERS = CHARACTERS and outcome = outcome
            and req = req and w = w]
    unfolding AwardCard by (auto split: option.splits)
next
  case GetCardCollection
  then show ?thesis using assms by simp
next
  case GetAchievements
  then show ?thesis by (simp only: serve_achievements_stored awarded_by.simps append_Nil2)
qed

lemma serve_all_stored_awarded:
  "GetCardCollection \<notin> set calls \<Longrightarrow>
   stored (serve_all CHARACTERS calls w) = stored w @ awarded CHARACTERS calls w"
proof (induction calls arbitrary: w)
  case Nil
  then show ?case by simp
next
  case (Cons call calls)
  have a: "call \<noteq> GetCardCollection" and b: "GetCardCollection \<notin> set calls"
    using Cons.prems by auto
  show ?case
    using Cons.IH [OF b, of "serve CHARACTERS call w"]
      serve_stored_awarded [OF a, of CHARACTERS w]
    by simp
qed

lemma awardCard_draws:
  assumes "awardCard CHARACTERS outcome req w = (resp, w')" and "reward resp = Some rw"
  shows "random_used w' =
           random_used w +
           (case outcome of FetchRejected \<Rightarrow> 6 | HttpNotOk \<Rightarrow> 5 | HttpOkBadJson \<Rightarrow> 6
            | HttpOk x \<Rightarrow> 5)"
proof -
  from assms obtain ch cid g c wa where
    f: "find (\<lambda>x. ch_id x = cid) CHARACTERS = Some ch"
    and m: "mintCard CHARACTERS outcome ch cid g c wa (req_isWon req = Some True) w = (resp, w')"
    by (rule awardCard_minted)
  let ?w3 = "snd (getCollection ''default'' (w\<lparr>random_used := Suc (Suc (random_used w))\<rparr>))"
  have used: "random_used ?w3 = random_used w + 2"
    by (simp add: getCollection_frame)
  have "random_used (snd (mintCard CHARACTERS outcome ch cid g c wa (req_isWon req = Some True) w))
        = Suc (random_used (snd (calculateCharacterStats CHARACTERS outcome cid ?w3)))"
    by (rule mintCard_draws)
  then show ?thesis
    using calculateCharacterStats_difficulty(2) [OF f, of outcome ?w3]
    unfolding m used by (simp split: fetch_outcome.splits)
qed

lemma maxSupply_of_table:
  "maxSupply_of r =
     (case r of Mythic \<Rightarrow> 100 | Legendary \<Rightarrow> 500 | Epic \<Rightarrow> 1000 | Rare \<Rightarrow> 5000 | Common \<Rightarrow> 10000)"
  by (cases r) (simp_all add: maxSupply_of_def)

subsection \<open>Claim C1\<close>

text \<open>
  Claim C1. \<open>calculatePerformanceScore\<close> returns exactly 0 for a lost game; for a won game
  it returns \<open>max(0, min(100, 100 - min(guessTime, 30)/30*30 - 10*cluesUsed - 5*wrongAttempts))\<close>;
  and the result lies in \<open>[0, 100]\<close> inclusive (for every input, so in particular for
  every valid one: non-negative time, 0..3 clues, non-negative wrong attempts).
\<close>

theorem calculatePerformanceScore_spec:
  "calculatePerformanceScore guessTime cluesUsed wrongAttempts False = 0
   \<and> calculatePerformanceScore guessTime cluesUsed wrongAttempts True =
       max 0 (min 100 (100 - min guessTime 30 / 30 * 30 - 10 * cluesUsed - 5 * wrongAttempts))
   \<and> 0 \<le> calculatePerformanceScore guessTime cluesUsed wrongAttempts isWon
   \<and> calculatePerformanceScore guessTime cluesUsed wrongAttempts isWon \<le> 100"
  by (simp add: calculatePerformanceScore_def Let_def min.commute mult.commute)

subsection \<open>Claim C2\<close>

text \<open>
  Claim C2. \<open>determineRarity\<close> consumes exactly one random roll, which lies in
  \<open>[0, 100)\<close>, and returns the first tier, in the order mythic, legendary, epic, rare,
  common, whose cumulative threshold the roll falls under, for the bucket weights of the
  specification's table.
\<close>

theorem determineRarity_cumulative:
  assumes "0 \<le> random_src w (random_used w)" and "random_src w (random_used w) < 1"
  shows "determineRarity score w =
           (first_under (random_src w (random_used w) * 100) 0 (rarity_weights score),
            w\<lparr>random_used := Suc (random_used w)\<rparr>)
         \<and> 0 \<le> random_src w (random_used w) * 100
         \<and> random_src w (random_used w) * 100 < 100"
  using assms
  by (simp add: determineRarity_def Math_random_def rarity_weights_def Let_def)

theorem determineRarity_cumulative_witness:
  "determineRarity 85 (initial_world (constant_random (1 / 4)) (ticking_clock 1000)) =
     (Legendary, (initial_world (constant_random (1 / 4)) (ticking_clock 1000))\<lparr>random_used := 1\<rparr>)
   \<and> first_under 25 0 (rarity_weights 85) = Legendary"
  using determineRarity_cumulative
          [of "initial_world (constant_random (1 / 4)) (ticking_clock 1000)" 85]
  by (simp add: initial_world_def constant_random_def rarity_weights_def)

subsection \<open>Claim C3\<close>

text \<open>
  Claim C3. The claim: a request missing any required field, \<^verbatim>\<open>isWon\<close> included, is
  rejected as InvalidInput (HTTP 400) and the store is left alone. The handler's guard tests
  four of the five fields (lemma \<open>missing_checked_field_rejected\<close>); a request that lacks
  only \<^verbatim>\<open>isWon\<close> passes it, is scored as a lost game, and mints a card: on the empty
  store the response is 200 with \<open>success\<close> true and score 0, and the store then holds one
  card.
\<close>

theorem missing_isWon_is_accepted:
  "status (fst unflagged_award) = 200
   \<and> success (fst unflagged_award)
   \<and> map_option perf_score (map_option performance (reward (fst unflagged_award))) = Some 0
   \<and> stored world0 = []
   \<and> map characterId (stored (snd unflagged_award)) = [''spider-man'']"
  by (simp add: scenario_worlds scenario_defs)

subsection \<open>Claim C4\<close>

text \<open>
  Claim C4, as stated: for a lost game the rarity is always common and the variant always
  standard. A lost game scores 0 and draws from the lowest bucket, where a roll below 20
  gives rare; a rare card's variant roll below 20 gives shiny. With every draw equal to
  \<open>1/10\<close> (rolls of 10) the card is rare and shiny.
\<close>

theorem lost_game_not_always_common_counterexample:
  "req_isWon (play ''spider-man'' 5 0 0 (Some False)) = Some False
   \<and> map_option rarity (minted (fst lost_award)) = Some Rare
   \<and> map_option variant (minted (fst lost_award)) = Some (Some Shiny)"
  by (simp add: scenario_worlds scenario_defs)

text \<open>
  Claim C4, amended. For every award request with \<^verbatim>\<open>isWon\<close> false that mints a card,
  the score is 0 and the rarity and variant draws still occur: \<open>determineRarity\<close> consumes
  the first random value of the request and \<open>determineVariant\<close> the second, whatever the
  rarity, and the whole award consumes five random values (six when the oracle call
  throws or its response body does not parse). The rarity is rare when the first roll is below 20 and common otherwise, and the
  variant is shiny when the card is rare and the second roll is below 20 and standard
  otherwise.
\<close>

theorem lost_game_rarity_variant:
  assumes "req_isWon req = Some False"
    and "awardCard CHARACTERS outcome req w = (resp, w')" and "reward resp = Some rw"
  shows "perf_score (performance rw) = 0
       \<and> determineRarity 0 w = (rarity (rw_card rw), w\<lparr>random_used := Suc (random_used w)\<rparr>)
       \<and> rarity (rw_card rw) = (if random_src w (random_used w) * 100 < 20 then Rare else Common)
       \<and> determineVariant (rarity (rw_card rw)) (w\<lparr>random_used := Suc (random_used w)\<rparr>) =
           (if rarity (rw_card rw) = Rare \<and> random_src w (Suc (random_used w)) * 100 < 20
            then Shiny else Standard,
            w\<lparr>random_used := Suc (Suc (random_used w))\<rparr>)
       \<and> variant (rw_card rw) =
           Some (if rarity (rw_card rw) = Rare \<and> random_src w (Suc (random_used w)) * 100 < 20
                 then Shiny else Standard)
       \<and> random_used w' =
           random_used w +
           (case outcome of FetchRejected \<Rightarrow> 6 | HttpNotOk \<Rightarrow> 5 | HttpOkBadJson \<Rightarrow> 6
            | HttpOk x \<Rightarrow> 5)"
proof -
  from assms(2,3) obtain ch cid g c wa where
    m: "mintCard CHARACTERS outcome ch cid g c wa (req_isWon req = Some True) w = (resp, w')"
    by (rule awardCard_minted)
  have lost: "(req_isWon req = Some True) = False" using assms(1) by simp
  have z: "calculatePerformanceScore g c wa False = 0"
    by (simp add: calculatePerformanceScore_def)
  from mintCard_reward [of CHARACTERS outcome ch cid g c wa False w]
  obtain rw' where r: "reward resp = Some rw'"
    and sc: "perf_score (performance rw') = 0"
    and ra: "rarity (rw_card rw') = fst (determineRarity 0 w)"
    and va: "variant (rw_card rw') =
         Some (fst (determineVariant (rarity (rw_card rw')) (w\<lparr>random_used := Suc (random_used w)\<rparr>)))"
    using m unfolding lost z by auto
  have eq: "rw' = rw" using r assms(3) by simp
  have dr: "determineRarity 0 w =
           (if random_src w (random_used w) * 100 < 20 then Rare else Common,
            w\<lparr>random_used := Suc (random_used w)\<rparr>)"
    by (simp add: determineRarity_def Math_random_def Let_def)
  have cases: "rarity (rw_card rw) = Rare \<or> rarity (rw_card rw) = Common"
    using ra dr unfolding eq by (simp split: if_splits)
  have dv: "determineVariant (rarity (rw_card rw)) (w\<lparr>random_used := Suc (random_used w)\<rparr>) =
           (if rarity (rw_card rw) = Rare \<and> random_src w (Suc (random_used w)) * 100 < 20
            then Shiny else Standard,
            w\<lparr>random_used := Suc (Suc (random_used w))\<rparr>)"
    using cases by (auto simp add: determineVariant_def Math_random_def Let_def)
  have n: "random_used w' =
           random_used w +
           (case outcome of FetchRejected \<Rightarrow> 6 | HttpNotOk \<Rightarrow> 5 | HttpOkBadJson \<Rightarrow> 6
            | HttpOk x \<Rightarrow> 5)"
    using assms(2,3) by (rule awardCard_draws)
  have ra': "rarity (rw_card rw) = (if random_src w (random_used w) * 100 < 20 then Rare else Common)"
    using ra dr unfolding eq by simp
  have dr': "determineRarity 0 w = (rarity (rw_card rw), w\<lparr>random_used := Suc (random_used w)\<rparr>)"
    using dr ra' by simp
  have va': "variant (rw_card rw) =
           Some (if rarity (rw_card rw) = Rare \<and> random_src w (Suc (random_used w)) * 100 < 20
                 then Shiny else Standard)"
    using va dv unfolding eq by simp
  show ?thesis
    using sc dr' ra' dv va' n unfolding eq by blast
qed

text \<open>The amended C4 at the lost game of the counterexample.\<close>

theorem lost_game_rarity_variant_witness:
  "req_isWon (play ''spider-man'' 5 0 0 (Some False)) = Some False
   \<and> map_option perf_score (map_option performance (reward (fst lost_award))) = Some 0
   \<and> map_option rarity (minted (fst lost_award)) = Some Rare
   \<and> map_option variant (minted (fst lost_award)) = Some (Some Shiny)
   \<and> random_used world0 = 0
   \<and> random_used (snd lost_award) = 5"
proof -
  have h: "req_isWon (play ''spider-man'' 5 0 0 (Some False)) = Some False"
    by (simp add: play_def)
  have a: "awardCard demo_catalog HttpNotOk (play ''spider-man'' 5 0 0 (Some False)) world0
           = (fst lost_award, snd lost_award)"
    by (simp add: lost_award_def)
  have "reward (fst lost_award) \<noteq> None"
    by (simp add: scenario_worlds scenario_defs)
  then obtain rw where r: "reward (fst lost_award) = Some rw" by auto
  show ?thesis
    using h r lost_game_rarity_variant [OF h a r]
    by (simp add: minted_def world0_def initial_world_def constant_random_def)
qed

subsection \<open>Claim C5\<close>

text \<open>
  Claim C5, as stated: on a non-success HTTP response, too, the difficulty is a random
  integer drawn from \<open>[0, 100)\<close>. The catch block that draws runs only when the call
  throws; a response that is not \<^verbatim>\<open>ok\<close> skips the assignment and leaves the default
  \<^verbatim>\<open>let difficulty = 50\<close>. With every draw equal to \<open>99/100\<close> a draw would give 99;
  the card has difficulty 50, and the award consumes five random values where the award
  whose call throws consumes six.
\<close>

theorem not_ok_response_keeps_default_counterexample:
  "status (fst not_ok_award) = 200
   \<and> map_option difficulty (map_option stats (minted (fst not_ok_award))) = Some 50
   \<and> \<lfloor>random_src world99 (random_used world99 + 3) * 100\<rfloor> = 99
   \<and> random_used (snd not_ok_award) = 5
   \<and> random_used (snd rejected_award) = 6"
  by (simp add: scenario_worlds scenario_defs)

text \<open>
  Claim C5, amended. For a request that passes validation and lookup, when the oracle call
  throws the difficulty is the integer \<open>\<lfloor>r * 100\<rfloor>\<close> of one further random draw \<open>r\<close>, in
  \<open>[0, 100)\<close>; when the response is not \<^verbatim>\<open>ok\<close> the difficulty is the default 50 and no
  draw is made for it. In both cases the award answers 200 with a reward whose difficulty
  lies in \<open>[0, 100]\<close>.
\<close>

theorem oracle_failure_fallback:
  assumes "0 \<le> random_src w (random_used w + 3)" and "random_src w (random_used w + 3) < 1"
    and "outcome = FetchRejected \<or> outcome = HttpNotOk"
    and "req_characterId req = Some cid" and "cid \<noteq> []"
    and "req_guessTime req = Some g" and "req_cluesUsed req = Some c"
    and "req_wrongAttempts req = Some wa"
    and "find (\<lambda>x. ch_id x = cid) CHARACTERS = Some ch"
  shows "\<exists>rw. reward (fst (awardCard CHARACTERS outcome req w)) = Some rw
           \<and> status (fst (awardCard CHARACTERS outcome req w)) = 200
           \<and> success (fst (awardCard CHARACTERS outcome req w))
           \<and> difficulty (stats (rw_card rw)) =
               (if outcome = HttpNotOk then 50
                else \<lfloor>random_src w (random_used w + 3) * 100\<rfloor>)
           \<and> 0 \<le> difficulty (stats (rw_card rw)) \<and> difficulty (stats (rw_card rw)) \<le> 100
           \<and> (outcome = FetchRejected \<longrightarrow> difficulty (stats (rw_card rw)) < 100)
           \<and> random_used (snd (awardCard CHARACTERS outcome req w)) =
               random_used w + (if outcome = HttpNotOk then 5 else 6)"
proof -
  let ?won = "req_isWon req = Some True"
  let ?w3 = "snd (getCollection ''default'' (w\<lparr>random_used := Suc (Suc (random_used w))\<rparr>))"
  have a: "awardCard CHARACTERS outcome req w = mintCard CHARACTERS outcome ch cid g c wa ?won w"
    using assms(4-9) by (simp add: awardCard_def)
  from mintCard_reward [of CHARACTERS outcome ch cid g c wa ?won w]
  obtain rw where r: "reward (fst (mintCard CHARACTERS outcome ch cid g c wa ?won w)) = Some rw"
    and st: "status (fst (mintCard CHARACTERS outcome ch cid g c wa ?won w)) = 200"
    and su: "success (fst (mintCard CHARACTERS outcome ch cid g c wa ?won w))"
    and s: "stats (rw_card rw) = fst (calculateCharacterStats CHARACTERS outcome cid ?w3)"
    by auto
  have src: "random_src ?w3 = random_src w" and used: "random_used ?w3 = random_used w + 2"
    by (simp_all add: getCollection_frame)
  have d: "difficulty (stats (rw_card rw)) =
             (if outcome = HttpNotOk then 50 else \<lfloor>random_src w (random_used w + 3) * 100\<rfloor>)"
    using assms(3) calculateCharacterStats_difficulty(1) [OF assms(9), of outcome ?w3]
    unfolding s src used by (auto simp: numeral_3_eq_3)
  have n: "random_used (snd (mintCard CHARACTERS outcome ch cid g c wa ?won w)) =
             random_used w + (if outcome = HttpNotOk then 5 else 6)"
    using assms(3) calculateCharacterStats_difficulty(2) [OF assms(9), of outcome ?w3]
    unfolding mintCard_draws used by auto
  have lo: "0 \<le> random_src w (random_used w + 3)" and hi: "random_src w (random_used w + 3) < 1"
    using assms(1,2) by simp_all
  have f0: "0 \<le> \<lfloor>random_src w (random_used w + 3) * 100\<rfloor>" using lo by simp
  have "random_src w (random_used w + 3) * 100 < 100" using hi by simp
  then have f1: "\<lfloor>random_src w (random_used w + 3) * 100\<rfloor> < 100"
    by (simp add: floor_less_iff)
  show ?thesis
    unfolding a using r st su d n f0 f1 by auto
qed

text \<open>The amended C5 at an award whose oracle call throws and at one answered not ok.\<close>

theorem oracle_failure_fallback_witness:
  "status (fst rejected_award) = 200
   \<and> map_option difficulty (map_option stats (minted (fst rejected_award))) = Some 99
   \<and> random_used (snd rejected_award) = 6
   \<and> status (fst not_ok_award) = 200
   \<and> map_option difficulty (map_option stats (minted (fst not_ok_award))) = Some 50
   \<and> random_used (snd not_ok_award) = 5"
proof -
  have lo: "0 \<le> random_src world99 (random_used world99 + 3)"
    and hi: "random_src world99 (random_used world99 + 3) < 1"
    by (simp_all add: world99_def initial_world_def constant_random_def)
  have f: "find (\<lambda>x. ch_id x = ''spider-man'') demo_catalog = Some (hd demo_catalog)"
    by (simp add: demo_catalog_def)
  have q: "req_characterId (play ''spider-man'' 5 0 0 (Some True)) = Some ''spider-man''"
    "req_guessTime (play ''spider-man'' 5 0 0 (Some True)) = Some 5"
    "req_cluesUsed (play ''spider-man'' 5 0 0 (Some True)) = Some 0"
    "req_wrongAttempts (play ''spider-man'' 5 0 0 (Some True)) = Some 0"
    by (simp_all add: play_def)
  have ne: "''spider-man'' \<noteq> []" by simp
  have thrown: "FetchRejected = FetchRejected \<or> FetchRejected = HttpNotOk" by simp
  have not_ok: "HttpNotOk = FetchRejected \<or> HttpNotOk = HttpNotOk" by simp
  show ?thesis
    using oracle_failure_fallback [OF lo hi thrown q(1) ne q(2) q(3) q(4) f]
      oracle_failure_fallback [OF lo hi not_ok q(1) ne q(2) q(3) q(4) f]
    by (auto simp add: rejected_award_def not_ok_award_def minted_def world99_def
          initial_world_def constant_random_def)
qed

subsection \<open>Claim C6\<close>

text \<open>
  Claim C6. The claim: under any interleaving of the three endpoints the stored sequence
  stays in unlock order, and the achievements endpoint reads first-card's
  \<^verbatim>\<open>unlockedAt\<close> from the first card ever minted. \<^verbatim>\<open>getCardCollection\<close> sorts the stored
  array itself, newest first. After two awards (stamped 1001, then 1004) the store is in
  unlock order; one collection read later it is stored as 1004, 1001, and the achievements
  endpoint, which indexes position 0, reports first-card as unlocked at 1004, the stamp of
  the second card.
\<close>

theorem collection_read_reorders_store:
  "map unlockedAt (stored two_awards) = [1001, 1004]
   \<and> two_awards_then_collection = serve demo_catalog GetCardCollection two_awards
   \<and> map unlockedAt (stored two_awards_then_collection) = [1004, 1001]
   \<and> map ach_id (fst (getAchievements two_awards_then_collection)) =
       [''first-card'', ''collector'', ''master-collector'', ''legendary-pull'', ''mythic-hunter'']
   \<and> map ach_unlockedAt (fst (getAchievements two_awards_then_collection)) =
       [Some 1004, None, None, None, Some 1001]"
  by (simp add: scenario_worlds scenario_defs endpoint_defs)

subsection \<open>Claim C7\<close>

text \<open>
  Claim C7. Starting from the empty store, after any sequence of award requests (the
  achievements endpoint may be read in between), the store holds exactly the cards the
  award responses carried, in mint order; the serial numbers of the cards of one character
  are exactly 1, 2, 3, ... in that order; and every card's \<open>maxSupply\<close> is determined by
  its rarity: mythic 100, legendary 500, epic 1000, rare 5000, common 10000. In any state
  of the store, an award that mints a card appends that card to the stored sequence, for
  the requested character, with the count of that character's stored cards plus one as
  serial number and the \<open>maxSupply\<close> of its rarity; an award that is rejected leaves the
  state as it is.
\<close>

theorem serial_numbers_sequential:
  assumes "GetCardCollection \<notin> set calls"
  shows "stored (serve_all CHARACTERS calls (initial_world rnd clk)) =
           awarded CHARACTERS calls (initial_world rnd clk)
       \<and> map serialNumber
           (filter (\<lambda>x. characterId x = cid)
              (stored (serve_all CHARACTERS calls (initial_world rnd clk)))) =
         [1..<Suc (length (filter (\<lambda>x. characterId x = cid)
                     (stored (serve_all CHARACTERS calls (initial_world rnd clk)))))]
       \<and> (\<forall>x\<in>set (stored (serve_all CHARACTERS calls (initial_world rnd clk))).
             maxSupply x =
               (case rarity x of Mythic \<Rightarrow> 100 | Legendary \<Rightarrow> 500 | Epic \<Rightarrow> 1000
                | Rare \<Rightarrow> 5000 | Common \<Rightarrow> 10000))
       \<and> (case reward (fst (awardCard CHARACTERS outcome req w)) of
             None \<Rightarrow> snd (awardCard CHARACTERS outcome req w) = w
           | Some rw \<Rightarrow>
               stored (snd (awardCard CHARACTERS outcome req w)) = stored w @ [rw_card rw]
               \<and> req_characterId req = Some (characterId (rw_card rw))
               \<and> serialNumber (rw_card rw) =
                   Suc (length (filter (\<lambda>x. characterId x = characterId (rw_card rw)) (stored w)))
               \<and> maxSupply (rw_card rw) =
                   (case rarity (rw_card rw) of Mythic \<Rightarrow> 100 | Legendary \<Rightarrow> 500
                    | Epic \<Rightarrow> 1000 | Rare \<Rightarrow> 5000 | Common \<Rightarrow> 10000))"
proof -
  have log: "stored (serve_all CHARACTERS calls (initial_world rnd clk)) =
               awarded CHARACTERS calls (initial_world rnd clk)"
    using serve_all_stored_awarded [OF assms, of CHARACTERS "initial_world rnd clk"]
    by (simp add: stored_initial)
  have "serials_in_order (stored (initial_world rnd clk))"
    by (simp add: stored_initial serials_in_order_def)
  then have "serials_in_order (stored (serve_all CHARACTERS calls (initial_world rnd clk)))"
    using assms by (intro serve_all_keeps_serials)
  then have run: "map serialNumber
           (filter (\<lambda>x. characterId x = cid)
              (stored (serve_all CHARACTERS calls (initial_world rnd clk)))) =
         [1..<Suc (length (filter (\<lambda>x. characterId x = cid)
                     (stored (serve_all CHARACTERS calls (initial_world rnd clk)))))]
       \<and> (\<forall>x\<in>set (stored (serve_all CHARACTERS calls (initial_world rnd clk))).
             maxSupply x =
               (case rarity x of Mythic \<Rightarrow> 100 | Legendary \<Rightarrow> 500 | Epic \<Rightarrow> 1000
                | Rare \<Rightarrow> 5000 | Common \<Rightarrow> 10000))"
    by (simp add: serials_in_order_def maxSupply_of_table)
  have step: "case reward (fst (awardCard CHARACTERS outcome req w)) of
             None \<Rightarrow> snd (awardCard CHARACTERS outcome req w) = w
           | Some rw \<Rightarrow>
               stored (snd (awardCard CHARACTERS outcome req w)) = stored w @ [rw_card rw]
               \<and> req_characterId req = Some (characterId (rw_card rw))
               \<and> serialNumber (rw_card rw) =
                   Suc (length (filter (\<lambda>x. characterId x = characterId (rw_card rw)) (stored w)))
               \<and> maxSupply (rw_card rw) =
                   (case rarity (rw_card rw) of Mythic \<Rightarrow> 100 | Legendary \<Rightarrow> 500
                    | Epic \<Rightarrow> 1000 | Rare \<Rightarrow> 5000 | Common \<Rightarrow> 10000)"
    using awardCard_serial [where CHARACTERS = CHARACTERS and outcome = outcome
            and req = req and w = w]
      awardCard_stored [where CHARACTERS = CHARACTERS and outcome = outcome
            and req = req and w = w]
    by (simp add: maxSupply_of_table split: option.splits)
  show ?thesis using log run step by blast
qed

text \<open>
  C7 at three awards, the first and the third for the same character: the responses carry
  the serial numbers 1, 1, 2 and the store holds those three cards.
\<close>

theorem serial_numbers_sequential_witness:
  "map characterId (stored three_awards) = [''spider-man'', ''iron-man'', ''spider-man'']
   \<and> map serialNumber (stored three_awards) = [1, 1, 2]
   \<and> map serialNumber (filter (\<lambda>x. characterId x = ''spider-man'') (stored three_awards)) = [1, 2]
   \<and> map maxSupply (stored three_awards) = [100, 5000, 1000]
   \<and> awarded demo_catalog
         [AwardCard HttpNotOk (play ''spider-man'' 5 0 0 (Some True)),
          AwardCard HttpNotOk (play ''iron-man'' 30 2 3 (Some True)),
          AwardCard FetchRejected (play ''spider-man'' 12 1 0 (Some True))] world0 =
       stored three_awards"
proof -
  have n: "GetCardCollection \<notin> set
       [AwardCard HttpNotOk (play ''spider-man'' 5 0 0 (Some True)),
        AwardCard HttpNotOk (play ''iron-man'' 30 2 3 (Some True)),
        AwardCard FetchRejected (play ''spider-man'' 12 1 0 (Some True))]"
    by simp
  have vals: "map characterId (stored three_awards) = [''spider-man'', ''iron-man'', ''spider-man'']
   \<and> map serialNumber (stored three_awards) = [1, 1, 2]
   \<and> map serialNumber (filter (\<lambda>x. characterId x = ''spider-man'') (stored three_awards)) = [1, 2]
   \<and> map maxSupply (stored three_awards) = [100, 5000, 1000]"
    by (simp add: scenario_worlds scenario_defs)
  have run: "stored three_awards =
       awarded demo_catalog
         [AwardCard HttpNotOk (play ''spider-man'' 5 0 0 (Some True)),
          AwardCard HttpNotOk (play ''iron-man'' 30 2 3 (Some True)),
          AwardCard FetchRejected (play ''spider-man'' 12 1 0 (Some True))] world0"
    using serial_numbers_sequential [OF n, where cid = "''spider-man''"
            and CHARACTERS = demo_catalog and rnd = "constant_random (1 / 10)"
            and clk = "ticking_clock 1000" and outcome = HttpNotOk
            and req = "play ''spider-man'' 5 0 0 (Some True)" and w = world0]
    unfolding three_awards_def world0_def by blast
  show ?thesis using vals run by simp
qed

subsection \<open>Claim C8\<close>

text \<open>
  Claim C8. For every award that mints a card, the reported list contains first-card
  exactly when the store holds one card after the append, collector exactly when it holds
  ten, legendary-pull exactly when the minted card is legendary and no legendary card was
  stored before, and perfect-game exactly when the score is 100. Each successful award
  raises the stored count by exactly one and the two read endpoints leave it as it is, so
  each count is reached on one request only and none is passed over.
\<close>

theorem unlocked_achievements_edge_triggered:
  assumes "awardCard CHARACTERS outcome req w = (resp, w')" and "reward resp = Some rw"
  shows "(''first-card'' \<in> ach_id ` set (unlockedAchievements rw) \<longleftrightarrow> length (stored w') = 1)
       \<and> (''collector'' \<in> ach_id ` set (unlockedAchievements rw) \<longleftrightarrow> length (stored w') = 10)
       \<and> (''legendary-pull'' \<in> ach_id ` set (unlockedAchievements rw) \<longleftrightarrow>
            rarity (rw_card rw) = Legendary \<and> filter (\<lambda>x. rarity x = Legendary) (stored w) = [])
       \<and> (''perfect-game'' \<in> ach_id ` set (unlockedAchievements rw) \<longleftrightarrow>
            perf_score (performance rw) = 100)
       \<and> length (stored w') = Suc (length (stored w))
       \<and> length (stored (snd (getCardCollection CHARACTERS w))) = length (stored w)
       \<and> length (stored (snd (getAchievements w))) = length (stored w)"
proof -
  from assms obtain ch cid g c wa where
    m: "mintCard CHARACTERS outcome ch cid g c wa (req_isWon req = Some True) w = (resp, w')"
    by (rule awardCard_minted)
  from mintCard_reward [of CHARACTERS outcome ch cid g c wa "req_isWon req = Some True" w]
  obtain rw' where r: "reward resp = Some rw'"
    and st: "stored w' = stored w @ [rw_card rw']"
    and sc: "perf_score (performance rw') = calculatePerformanceScore g c wa (req_isWon req = Some True)"
    and ids: "map ach_id (unlockedAchievements rw') =
         (if length (stored w) = 0 then [''first-card''] else [])
         @ (if length (stored w) = 9 then [''collector''] else [])
         @ (if rarity (rw_card rw') = Legendary \<and> filter (\<lambda>x. rarity x = Legendary) (stored w) = []
            then [''legendary-pull''] else [])
         @ (if calculatePerformanceScore g c wa (req_isWon req = Some True) = 100 then [''perfect-game''] else [])"
    unfolding m by auto
  have eq: "rw' = rw" using r assms(2) by simp
  have img: "ach_id ` set (unlockedAchievements rw) = set (map ach_id (unlockedAchievements rw))"
    by simp
  show ?thesis
    unfolding img
    using st sc ids read_endpoints_keep_count(1) [of CHARACTERS w]
      read_endpoints_keep_count(2) [of w]
    unfolding eq by auto
qed

text \<open>C8 at a perfect first game: first-card and perfect-game fire, the others do not.\<close>

theorem unlocked_achievements_edge_triggered_witness:
  "length (stored (snd perfect_award)) = 1
   \<and> ''first-card'' \<in> set (unlocked_ids (fst perfect_award))
   \<and> ''collector'' \<notin> set (unlocked_ids (fst perfect_award))
   \<and> ''legendary-pull'' \<notin> set (unlocked_ids (fst perfect_award))
   \<and> ''perfect-game'' \<in> set (unlocked_ids (fst perfect_award))"
proof -
  have a: "awardCard demo_catalog HttpNotOk (play ''spider-man'' 0 0 0 (Some True)) world0
           = (fst perfect_award, snd perfect_award)"
    by (simp add: perfect_award_def)
  have "reward (fst perfect_award) \<noteq> None"
    by (simp add: scenario_worlds scenario_defs)
  then obtain rw where r: "reward (fst perfect_award) = Some rw" by auto
  have n: "length (stored (snd perfect_award)) = 1"
    by (simp add: scenario_worlds scenario_defs)
  have s: "perf_score (performance rw) = 100"
    using r by (auto simp add: scenario_worlds scenario_defs)
  have m: "rarity (rw_card rw) = Mythic"
    using r by (auto simp add: scenario_worlds scenario_defs)
  show ?thesis
    using n s m r unlocked_achievements_edge_triggered [OF a r]
    by (simp add: unlocked_ids_def)
qed

subsection \<open>Claim C9\<close>

text \<open>
  Claim C9. For every character of the catalog the popularity stat is
  \<open>\<lfloor>r * 50\<rfloor> + 30\<close> for the draw \<open>r\<close>, hence in \<open>[30, 80)\<close>: no value of the universe
  type is one of the strings of the allow-list, so the \<open>[70, 100)\<close> branch is never taken.
\<close>

theorem popularity_range:
  assumes "find (\<lambda>x. ch_id x = cid) CHARACTERS = Some ch"
    and "0 \<le> random_src w (random_used w)" and "random_src w (random_used w) < 1"
  shows "universe_str (ch_universe ch) \<notin> set popularUniverses
       \<and> popularity (fst (calculateCharacterStats CHARACTERS outcome cid w)) =
           \<lfloor>random_src w (random_used w) * 50\<rfloor> + 30
       \<and> 30 \<le> popularity (fst (calculateCharacterStats CHARACTERS outcome cid w))
       \<and> popularity (fst (calculateCharacterStats CHARACTERS outcome cid w)) < 80"
proof -
  have u: "universe_str (ch_universe ch) \<notin> set popularUniverses"
    by (cases "ch_universe ch") (simp_all add: popularUniverses_def)
  have p: "popularity (fst (calculateCharacterStats CHARACTERS outcome cid w)) =
           \<lfloor>random_src w (random_used w) * 50\<rfloor> + 30"
    using assms(1) u
    by (simp add: calculateCharacterStats_def Math_random_def Let_def split_beta)
  have lo: "0 \<le> \<lfloor>random_src w (random_used w) * 50\<rfloor>"
    using assms(2) by simp
  have "random_src w (random_used w) * 50 < 50" using assms(3) by simp
  then have hi: "\<lfloor>random_src w (random_used w) * 50\<rfloor> < 50"
    by (simp add: floor_less_iff)
  show ?thesis using u p lo hi by simp
qed

theorem popularity_range_witness:
  "find (\<lambda>x. ch_id x = ''spider-man'') demo_catalog = Some (hd demo_catalog)
   \<and> popularity (fst (calculateCharacterStats demo_catalog HttpNotOk ''spider-man'' world99)) = 79"
proof -
  have f: "find (\<lambda>x. ch_id x = ''spider-man'') demo_catalog = Some (hd demo_catalog)"
    by (simp add: demo_catalog_def)
  have lo: "0 \<le> random_src world99 (random_used world99)"
    by (simp add: world99_def initial_world_def constant_random_def)
  have hi: "random_src world99 (random_used world99) < 1"
    by (simp add: world99_def initial_world_def constant_random_def)
  show ?thesis
    using f popularity_range [OF f lo hi, of HttpNotOk]
    by (simp add: world99_def initial_world_def constant_random_def)
qed

subsection \<open>Claim C10\<close>

text \<open>
  Claim C10. The list of achievements an award reports never contains mythic-hunter or
  master-collector, whatever the minted rarity and the stored count.
\<close>

theorem never_reports_level_only_achievements:
  assumes "awardCard CHARACTERS outcome req w = (resp, w')" and "reward resp = Some rw"
  shows "''mythic-hunter'' \<notin> ach_id ` set (unlockedAchievements rw)
       \<and> ''master-collector'' \<notin> ach_id ` set (unlockedAchievements rw)"
proof -
  from assms obtain ch cid g c wa where
    m: "mintCard CHARACTERS outcome ch cid g c wa (req_isWon req = Some True) w = (resp, w')"
    by (rule awardCard_minted)
  from mintCard_reward [of CHARACTERS outcome ch cid g c wa "req_isWon req = Some True" w]
  obtain rw' where r: "reward resp = Some rw'"
    and ids: "map ach_id (unlockedAchievements rw') =
         (if length (stored w) = 0 then [''first-card''] else [])
         @ (if length (stored w) = 9 then [''collector''] else [])
         @ (if rarity (rw_card rw') = Legendary \<and> filter (\<lambda>x. rarity x = Legendary) (stored w) = []
            then [''legendary-pull''] else [])
         @ (if calculatePerformanceScore g c wa (req_isWon req = Some True) = 100 then [''perfect-game''] else [])"
    unfolding m by auto
  have eq: "rw' = rw" using r assms(2) by simp
  have img: "ach_id ` set (unlockedAchievements rw) = set (map ach_id (unlockedAchievements rw))"
    by simp
  show ?thesis
    unfolding img using ids unfolding eq by auto
qed

text \<open>C10 at an award that mints a mythic card.\<close>

theorem never_reports_level_only_achievements_witness:
  "map_option rarity (minted (fst perfect_award)) = Some Mythic
   \<and> ''mythic-hunter'' \<notin> set (unlocked_ids (fst perfect_award))
   \<and> ''master-collector'' \<notin> set (unlocked_ids (fst perfect_award))"
proof -
  have a: "awardCard demo_catalog HttpNotOk (play ''spider-man'' 0 0 0 (Some True)) world0
           = (fst perfect_award, snd perfect_award)"
    by (simp add: perfect_award_def)
  have "reward (fst perfect_award) \<noteq> None"
    by (simp add: scenario_worlds scenario_defs)
  then obtain rw where r: "reward (fst perfect_award) = Some rw" by auto
  have m: "rarity (rw_card rw) = Mythic"
    using r by (auto simp add: scenario_worlds scenario_defs)
  show ?thesis
    using m r never_reports_level_only_achievements [OF a r]
    by (simp add: unlocked_ids_def minted_def)
qed

end
